theory Spec2Isabelle
  imports Main "HOL-Library.Word" "HOL-Library.Sublist"
begin

section \<open>Strings and the status matrix\<close>

text \<open>
  A JavaScript string is a sequence of UTF-16 code units; \<open>slice\<close>, \<open>split\<close> and
  \<open>length\<close> count code units. The status messages of the component are Japanese
  literals, so they are written out as their code units.
\<close>

type_synonym jsstring = "16 word list"

text \<open>
  Modelled from the spec: the enumerations \<open>HeadStatus\<close>, \<open>WorkdirStatus\<close> and
  \<open>StageStatus\<close> and the types \<open>StatusMatrix\<close> and \<open>GitStatus\<close> are imported by
  \<open>GitControls\<close> from \<open>types/gitStatus\<close>, which is not among the sources. The
  spec gives their members: head is ABSENT or PRESENT, the working tree is ABSENT,
  IDENTICAL or MODIFIED, the stage is ABSENT, IDENTICAL, MODIFIED or MODIFIED_AGAIN; the
  comments of \<open>fetchGitStatus\<close> (\<open>[0,2,0]\<close>, \<open>[1,0,1]\<close>, \<open>[1,2,3]\<close>) number them in
  that order. A row of the matrix is the tuple that \<open>fetchGitStatus\<close> destructures as
  \<open>[filename, head, workTree, stage]\<close>.
\<close>

datatype HeadStatus = HeadStatus_ABSENT | HeadStatus_PRESENT

datatype WorkdirStatus = WorkdirStatus_ABSENT | WorkdirStatus_IDENTICAL | WorkdirStatus_MODIFIED

datatype StageStatus =
  StageStatus_ABSENT | StageStatus_IDENTICAL | StageStatus_MODIFIED | StageStatus_MODIFIED_AGAIN

type_synonym StatusRow = "jsstring \<times> HeadStatus \<times> WorkdirStatus \<times> StageStatus"

type_synonym StatusMatrix = "StatusRow list"

record FileChange =
  filename :: jsstring
  isDeleted :: bool

record GitStatus =
  staged :: "FileChange list"
  unstaged :: "FileChange list"

section \<open>The classifier inside \<open>fetchGitStatus\<close>\<close>

text \<open>
  Lines 33 to 71 of \<open>GitControls\<close>: a fresh object \<open>gitStatus\<close> with two empty arrays,
  and \<open>statusMatrix.forEach\<close> with a callback that pushes onto them. The callback closes
  over both the matrix and the fresh object, so the loop is modelled on a frame that holds
  the two: what the callback writes and what it leaves alone is then visible in the model.
\<close>

record frame =
  fr_statusMatrix :: StatusMatrix
  fr_gitStatus :: GitStatus

definition push_unstaged :: "FileChange \<Rightarrow> frame \<Rightarrow> frame" where
  "push_unstaged fc fr =
     fr\<lparr>fr_gitStatus := (fr_gitStatus fr)\<lparr>unstaged := unstaged (fr_gitStatus fr) @ [fc]\<rparr>\<rparr>"

definition push_staged :: "FileChange \<Rightarrow> frame \<Rightarrow> frame" where
  "push_staged fc fr =
     fr\<lparr>fr_gitStatus := (fr_gitStatus fr)\<lparr>staged := staged (fr_gitStatus fr) @ [fc]\<rparr>\<rparr>"

text \<open>
  The callback. Inside a branch of the \<open>else if\<close> chain on \<open>stage\<close> the source has
  plain \<open>if\<close> statements one after the other, and in the last branch two pushes, the
  unstaged one first.
\<close>

fun forEach_callback :: "StatusRow \<Rightarrow> frame \<Rightarrow> frame" where
  "forEach_callback (name, head, workTree, stage) fr =
     (if stage = StageStatus_ABSENT then
        (let fr1 = (if workTree = WorkdirStatus_MODIFIED \<and> head = HeadStatus_ABSENT
                    then push_unstaged \<lparr>filename = name, isDeleted = False\<rparr> fr else fr)
         in (if workTree = WorkdirStatus_ABSENT \<and> head = HeadStatus_PRESENT
             then push_staged \<lparr>filename = name, isDeleted = True\<rparr> fr1 else fr1))
      else if stage = StageStatus_IDENTICAL then
        (let fr1 = (if workTree = WorkdirStatus_ABSENT
                    then push_unstaged \<lparr>filename = name, isDeleted = True\<rparr> fr else fr)
         in (if workTree = WorkdirStatus_MODIFIED
             then push_unstaged \<lparr>filename = name, isDeleted = False\<rparr> fr1 else fr1))
      else if stage = StageStatus_MODIFIED then
        (if workTree = WorkdirStatus_MODIFIED
         then push_staged \<lparr>filename = name, isDeleted = False\<rparr> fr else fr)
      else if stage = StageStatus_MODIFIED_AGAIN then
        (if workTree = WorkdirStatus_MODIFIED
         then push_staged \<lparr>filename = name, isDeleted = False\<rparr>
                (push_unstaged \<lparr>filename = name, isDeleted = False\<rparr> fr)
         else fr)
      else fr)"

text \<open>
  \<open>Array.prototype.forEach\<close>: the length is read once, the indices are visited in
  increasing order, and an index is skipped when the array no longer has it.
\<close>

function forEach_from :: "nat \<Rightarrow> nat \<Rightarrow> frame \<Rightarrow> frame" where
  "forEach_from i len fr =
     (if i < len
      then forEach_from (Suc i) len
             (if i < length (fr_statusMatrix fr)
              then forEach_callback (fr_statusMatrix fr ! i) fr else fr)
      else fr)"
  by pat_completeness auto
termination
  by (relation "measure (\<lambda>(i, len, fr). len - i)") auto

declare forEach_from.simps [simp del]

definition classify_frame :: "StatusMatrix \<Rightarrow> frame" where
  "classify_frame statusMatrix =
     forEach_from 0 (length statusMatrix)
       \<lparr>fr_statusMatrix = statusMatrix, fr_gitStatus = \<lparr>staged = [], unstaged = []\<rparr>\<rparr>"

definition classify :: "StatusMatrix \<Rightarrow> GitStatus" where
  "classify statusMatrix = fr_gitStatus (classify_frame statusMatrix)"

subsection \<open>The case table of the specification\<close>

text \<open>
  The six rows of the table, in the words of the specification: for a combination of the
  three states, whether the file is listed as staged, whether it is listed as unstaged, and
  whether it is marked deleted; \<open>None\<close> for a combination that is not in the table.
\<close>

fun table_row :: "HeadStatus \<Rightarrow> WorkdirStatus \<Rightarrow> StageStatus \<Rightarrow> (bool \<times> bool \<times> bool) option" where
  "table_row HeadStatus_ABSENT WorkdirStatus_MODIFIED StageStatus_ABSENT = Some (False, True, False)"
| "table_row HeadStatus_PRESENT WorkdirStatus_ABSENT StageStatus_ABSENT = Some (True, False, True)"
| "table_row _ WorkdirStatus_ABSENT StageStatus_IDENTICAL = Some (False, True, True)"
| "table_row _ WorkdirStatus_MODIFIED StageStatus_IDENTICAL = Some (False, True, False)"
| "table_row _ WorkdirStatus_MODIFIED StageStatus_MODIFIED = Some (True, False, False)"
| "table_row _ WorkdirStatus_MODIFIED StageStatus_MODIFIED_AGAIN = Some (True, True, False)"
| "table_row _ _ _ = None"

fun table_staged :: "StatusRow \<Rightarrow> FileChange list" where
  "table_staged (name, head, workTree, stage) =
     (case table_row head workTree stage of
        Some (True, _, deleted) \<Rightarrow> [\<lparr>filename = name, isDeleted = deleted\<rparr>]
      | _ \<Rightarrow> [])"

fun table_unstaged :: "StatusRow \<Rightarrow> FileChange list" where
  "table_unstaged (name, head, workTree, stage) =
     (case table_row head workTree stage of
        Some (_, True, deleted) \<Rightarrow> [\<lparr>filename = name, isDeleted = deleted\<rparr>]
      | _ \<Rightarrow> [])"

section \<open>The external capabilities\<close>

text \<open>
  The component reaches Git only through \<open>window.api.git\<close>. A call is recorded
  with the arguments the component passes, in the order it passes them. The author object
  \<open>{name, email}\<close> is an argument kind of the bridge (the preload script declares it
  for \<open>commit\<close>), so a call can be asked whether it carries one. The persisted
  settings are read through \<open>window.api.app.getSettings\<close>; the handlers of this
  component never call it.
\<close>

datatype error = Rejected

datatype capability =
  Git_status | Git_add | Git_unstage | Git_commit | Git_push | Git_pull | App_getSettings

datatype arg = Str jsstring | Author jsstring jsstring

datatype call = Call capability "arg list"

text \<open>
  What the capabilities answer is not fixed by the component: each is a function of the
  calls issued so far (the call being answered is the last of them), which covers every
  sequential behaviour of the process behind the bridge. A promise that rejects is
  \<open>Inl\<close>, one that resolves is \<open>Inr\<close>.
\<close>

record git_api =
  git_status :: "call list \<Rightarrow> error + StatusMatrix"
  git_add :: "call list \<Rightarrow> error + unit"
  git_unstage :: "call list \<Rightarrow> error + unit"
  git_commit :: "call list \<Rightarrow> error + jsstring"
  git_push :: "call list \<Rightarrow> error + unit"
  git_pull :: "call list \<Rightarrow> error + unit"

section \<open>The state of \<open>GitControls\<close>\<close>

text \<open>
  The four \<open>useState\<close> cells the handlers write, the record of the external calls issued
  so far, and the answers to the status fetches that were started without \<open>await\<close> and
  have not been delivered yet.
\<close>

record controller =
  commitMessage :: jsstring
  isLoading :: bool
  gitStatus :: "GitStatus option"
  statusMessage :: jsstring
  calls :: "call list"
  pending :: "(error + StatusMatrix) list"

text \<open>
  A piece of a handler takes the state and gives the state it leaves, with either the value
  it returns or the error it throws.
\<close>

type_synonym 'a action = "controller \<Rightarrow> (error + 'a) \<times> controller"

definition then_do :: "'a action \<Rightarrow> ('a \<Rightarrow> 'b action) \<Rightarrow> 'b action" where
  "then_do m f s = (case m s of (Inl e, s1) \<Rightarrow> (Inl e, s1) | (Inr x, s1) \<Rightarrow> f x s1)"

definition try_catch :: "unit action \<Rightarrow> (error \<Rightarrow> unit action) \<Rightarrow> unit action" where
  "try_catch body handler s =
     (case body s of (Inl e, s1) \<Rightarrow> handler e s1 | (Inr x, s1) \<Rightarrow> (Inr x, s1))"

definition try_catch_finally ::
  "unit action \<Rightarrow> (error \<Rightarrow> unit action) \<Rightarrow> unit action \<Rightarrow> unit action" where
  "try_catch_finally body handler cleanup s =
     (case try_catch body handler s of
        (res, s1) \<Rightarrow>
          (case cleanup s1 of (Inl e, s2) \<Rightarrow> (Inl e, s2) | (Inr x, s2) \<Rightarrow> (res, s2)))"

definition setIsLoading :: "bool \<Rightarrow> unit action" where
  "setIsLoading b s = (Inr (), s\<lparr>isLoading := b\<rparr>)"

definition setStatusMessage :: "jsstring \<Rightarrow> unit action" where
  "setStatusMessage m s = (Inr (), s\<lparr>statusMessage := m\<rparr>)"

definition setCommitMessage :: "jsstring \<Rightarrow> unit action" where
  "setCommitMessage m s = (Inr (), s\<lparr>commitMessage := m\<rparr>)"

definition setGitStatus :: "GitStatus \<Rightarrow> unit action" where
  "setGitStatus g s = (Inr (), s\<lparr>gitStatus := Some g\<rparr>)"

definition await_call :: "(call list \<Rightarrow> error + 'a) \<Rightarrow> call \<Rightarrow> 'a action" where
  "await_call answer c s = (let s1 = s\<lparr>calls := calls s @ [c]\<rparr> in (answer (calls s1), s1))"

subsection \<open>The status messages\<close>

definition msg_status_failed :: jsstring where
  "msg_status_failed =
     [0x0047, 0x0069, 0x0074, 0x30B9, 0x30C6, 0x30FC, 0x30BF, 0x30B9, 0x306E, 0x53D6, 0x5F97,
      0x306B, 0x5931, 0x6557, 0x3057, 0x307E, 0x3057, 0x305F]"

definition msg_committed :: jsstring where
  "msg_committed =
     [0x5909, 0x66F4, 0x3092, 0x30B3, 0x30DF, 0x30C3, 0x30C8, 0x3057, 0x307E, 0x3057, 0x305F,
      0x003A, 0x0020]"

definition msg_commit_failed :: jsstring where
  "msg_commit_failed =
     [0x30B3, 0x30DF, 0x30C3, 0x30C8, 0x306B, 0x5931, 0x6557, 0x3057, 0x307E, 0x3057, 0x305F]"

definition msg_pushed :: jsstring where
  "msg_pushed =
     [0x5909, 0x66F4, 0x3092, 0x0047, 0x0069, 0x0074, 0x0048, 0x0075, 0x0062, 0x306B, 0x30D7,
      0x30C3, 0x30B7, 0x30E5, 0x3057, 0x307E, 0x3057, 0x305F]"

definition msg_push_failed :: jsstring where
  "msg_push_failed =
     [0x30D7, 0x30C3, 0x30B7, 0x30E5, 0x306B, 0x5931, 0x6557, 0x3057, 0x307E, 0x3057, 0x305F]"

definition msg_pulled :: jsstring where
  "msg_pulled =
     [0x0047, 0x0069, 0x0074, 0x0048, 0x0075, 0x0062, 0x304B, 0x3089, 0x6700, 0x65B0, 0x306E,
      0x5909, 0x66F4, 0x3092, 0x53D6, 0x5F97, 0x3057, 0x307E, 0x3057, 0x305F]"

definition msg_pull_failed :: jsstring where
  "msg_pull_failed =
     [0x30D7, 0x30EB, 0x306B, 0x5931, 0x6557, 0x3057, 0x307E, 0x3057, 0x305F]"

definition msg_staged_all :: jsstring where
  "msg_staged_all =
     [0x3059, 0x3079, 0x3066, 0x306E, 0x5909, 0x66F4, 0x3092, 0x30B9, 0x30C6, 0x30FC, 0x30B8,
      0x30F3, 0x30B0, 0x3057, 0x307E, 0x3057, 0x305F]"

definition msg_stage_all_failed :: jsstring where
  "msg_stage_all_failed =
     [0x5909, 0x66F4, 0x306E, 0x30B9, 0x30C6, 0x30FC, 0x30B8, 0x30F3, 0x30B0, 0x306B, 0x5931,
      0x6557, 0x3057, 0x307E, 0x3057, 0x305F]"





definition msg_unstaged_all :: jsstring where
  "msg_unstaged_all =
     [0x3059, 0x3079, 0x3066, 0x306E, 0x30B9, 0x30C6, 0x30FC, 0x30B8, 0x30F3, 0x30B0, 0x3092,
      0x53D6, 0x308A, 0x6D88, 0x3057, 0x307E, 0x3057, 0x305F]"

definition msg_unstage_all_failed :: jsstring where
  "msg_unstage_all_failed =
     [0x30B9, 0x30C6, 0x30FC, 0x30B8, 0x30F3, 0x30B0, 0x53D6, 0x308A, 0x6D88, 0x3057, 0x306B,
      0x5931, 0x6557, 0x3057, 0x307E, 0x3057, 0x305F]"

subsection \<open>\<open>getFileName\<close>\<close>

text \<open>
  \<open>path.split('/').pop() || path\<close>: the part after the last slash, and the whole path
  when that part is empty. \<open>split\<close> never gives an empty array, so \<open>pop\<close> has a value.
\<close>

fun split :: "16 word \<Rightarrow> jsstring \<Rightarrow> jsstring list" where
  "split sep [] = [[]]"
| "split sep (c # cs) =
     (if c = sep then [] # split sep cs
      else (case split sep cs of [] \<Rightarrow> [[c]] | piece # pieces \<Rightarrow> (c # piece) # pieces))"

definition getFileName :: "jsstring \<Rightarrow> jsstring" where
  "getFileName path =
     (let popped = last (split 0x002F path) in if popped = [] then path else popped)"

section \<open>The handlers\<close>

subsection \<open>\<open>fetchGitStatus\<close>\<close>

text \<open>
  The function as it is written, run to its end: the status call inside \<open>try\<close>, the
  classification stored with \<open>setGitStatus\<close>, and the \<open>catch\<close> that sets the message.
\<close>

definition fetchGitStatus :: "git_api \<Rightarrow> unit action" where
  "fetchGitStatus api =
     try_catch
       (then_do (await_call (git_status api) (Call Git_status []))
          (\<lambda>statusMatrix. setGitStatus (classify statusMatrix)))
       (\<lambda>e. setStatusMessage msg_status_failed)"

text \<open>
  Every handler calls \<open>fetchGitStatus()\<close> without \<open>await\<close>. The call runs up to its
  own \<open>await\<close>, which issues the status request, and returns a promise that the handler
  drops; the handler goes on to its \<open>finally\<close>. What follows the \<open>await\<close> inside
  \<open>fetchGitStatus\<close> runs when the answer arrives, after the handler has returned.
\<close>

definition fetchGitStatus_unawaited :: "git_api \<Rightarrow> unit action" where
  "fetchGitStatus_unawaited api s =
     (let s1 = s\<lparr>calls := calls s @ [Call Git_status []]\<rparr>
      in (Inr (), s1\<lparr>pending := pending s1 @ [git_status api (calls s1)]\<rparr>))"

definition fetchGitStatus_resume :: "error + StatusMatrix \<Rightarrow> unit action" where
  "fetchGitStatus_resume answer =
     try_catch
       (then_do (\<lambda>s. (answer, s)) (\<lambda>statusMatrix. setGitStatus (classify statusMatrix)))
       (\<lambda>e. setStatusMessage msg_status_failed)"



subsection \<open>Commit, push and pull\<close>

definition handleCommit :: "git_api \<Rightarrow> unit action" where
  "handleCommit api s =
     (if commitMessage s = [] then (Inr (), s)
      else
        then_do (setIsLoading True)
          (\<lambda>_. try_catch_finally
             (then_do (await_call (git_commit api) (Call Git_commit [Str (commitMessage s)]))
                (\<lambda>sha. then_do (setStatusMessage (msg_committed @ take 7 sha))
                   (\<lambda>_. then_do (setCommitMessage [])
                      (\<lambda>_. fetchGitStatus_unawaited api))))
             (\<lambda>e. setStatusMessage msg_commit_failed)
             (setIsLoading False)) s)"

definition handlePush :: "git_api \<Rightarrow> unit action" where
  "handlePush api =
     then_do (setIsLoading True)
       (\<lambda>_. try_catch_finally
          (then_do (await_call (git_push api) (Call Git_push []))
             (\<lambda>_. setStatusMessage msg_pushed))
          (\<lambda>e. setStatusMessage msg_push_failed)
          (setIsLoading False))"

definition handlePull :: "git_api \<Rightarrow> unit action" where
  "handlePull api =
     then_do (setIsLoading True)
       (\<lambda>_. try_catch_finally
          (then_do (await_call (git_pull api) (Call Git_pull []))
             (\<lambda>_. then_do (setStatusMessage msg_pulled)
                (\<lambda>_. fetchGitStatus_unawaited api)))
          (\<lambda>e. setStatusMessage msg_pull_failed)
          (setIsLoading False))"

subsection \<open>Staging and unstaging\<close>

text \<open>
  \<open>for (const file of files) { await window.api.git.add(file.filename); }\<close> and its
  twin with \<open>unstage\<close>: one call per entry, each awaited before the next, and a rejection
  leaves the loop.
\<close>

fun for_await ::
  "(call list \<Rightarrow> error + unit) \<Rightarrow> capability \<Rightarrow> FileChange list \<Rightarrow> unit action" where
  "for_await answer cap [] s = (Inr (), s)"
| "for_await answer cap (file # files) s =
     then_do (await_call answer (Call cap [Str (filename file)]))
       (\<lambda>_. for_await answer cap files) s"

definition handleStageAll :: "git_api \<Rightarrow> unit action" where
  "handleStageAll api s =
     (case gitStatus s of
        None \<Rightarrow> (Inr (), s)
      | Some g \<Rightarrow>
          if length (unstaged g) = 0 then (Inr (), s)
          else
            try_catch_finally
              (then_do (setIsLoading True)
                 (\<lambda>_. then_do (for_await (git_add api) Git_add (unstaged g))
                    (\<lambda>_. then_do (setStatusMessage msg_staged_all)
                       (\<lambda>_. fetchGitStatus_unawaited api))))
              (\<lambda>e. setStatusMessage msg_stage_all_failed)
              (setIsLoading False) s)"

definition handleUnstageAll :: "git_api \<Rightarrow> unit action" where
  "handleUnstageAll api s =
     (case gitStatus s of
        None \<Rightarrow> (Inr (), s)
      | Some g \<Rightarrow>
          if length (staged g) = 0 then (Inr (), s)
          else
            try_catch_finally
              (then_do (setIsLoading True)
                 (\<lambda>_. then_do (for_await (git_unstage api) Git_unstage (staged g))
                    (\<lambda>_. then_do (setStatusMessage msg_unstaged_all)
                       (\<lambda>_. fetchGitStatus_unawaited api))))
              (\<lambda>e. setStatusMessage msg_unstage_all_failed)
              (setIsLoading False) s)"



subsection \<open>The buttons that invoke the guarded handlers\<close>




section \<open>Vocabulary of the statements\<close>

text \<open>The calls that a sweep over a list of entries issues, one per entry, in list order.\<close>

definition calls_for :: "capability \<Rightarrow> FileChange list \<Rightarrow> call list" where
  "calls_for cap files = map (\<lambda>file. Call cap [Str (filename file)]) files"

text \<open>Whether a call carries an author identity among its arguments.\<close>

fun is_author :: "arg \<Rightarrow> bool" where
  "is_author (Author name email) = True"
| "is_author (Str text) = False"

fun carries_author :: "call \<Rightarrow> bool" where
  "carries_author (Call cap args) = list_ex is_author args"

subsection \<open>Concrete capabilities and states\<close>

text \<open>
  Three behaviours of the capabilities: every call resolves (the commit with a hash of ten
  characters, the status with one row that is staged and modified again); every call
  rejects; the second call issued to \<open>add\<close> or \<open>unstage\<close> rejects and all others
  resolve. The states: a controller that has not fetched anything yet, the same with the
  loading flag set by an operation still under way, one with three
  unstaged entries \<open>x\<close>, \<open>y\<close>, \<open>z\<close>, one with the same three staged, and one with the
  message \<open>fix\<close> typed while nothing is staged.
\<close>

definition sha_example :: jsstring where
  "sha_example = [0x61, 0x31, 0x62, 0x32, 0x63, 0x33, 0x64, 0x34, 0x65, 0x35]"

definition api_resolving :: git_api where
  "api_resolving =
     \<lparr>git_status = (\<lambda>log. Inr [([0x63], HeadStatus_PRESENT, WorkdirStatus_MODIFIED,
                                  StageStatus_MODIFIED_AGAIN)]),
      git_add = (\<lambda>log. Inr ()), git_unstage = (\<lambda>log. Inr ()),
      git_commit = (\<lambda>log. Inr sha_example),
      git_push = (\<lambda>log. Inr ()), git_pull = (\<lambda>log. Inr ())\<rparr>"

definition api_rejecting :: git_api where
  "api_rejecting =
     \<lparr>git_status = (\<lambda>log. Inl Rejected),
      git_add = (\<lambda>log. Inl Rejected), git_unstage = (\<lambda>log. Inl Rejected),
      git_commit = (\<lambda>log. Inl Rejected),
      git_push = (\<lambda>log. Inl Rejected), git_pull = (\<lambda>log. Inl Rejected)\<rparr>"

definition api_second_rejects :: git_api where
  "api_second_rejects =
     \<lparr>git_status = (\<lambda>log. Inr []),
      git_add = (\<lambda>log. if length log = 2 then Inl Rejected else Inr ()),
      git_unstage = (\<lambda>log. if length log = 2 then Inl Rejected else Inr ()),
      git_commit = (\<lambda>log. Inr sha_example),
      git_push = (\<lambda>log. Inr ()), git_pull = (\<lambda>log. Inr ())\<rparr>"

definition idle :: controller where
  "idle = \<lparr>commitMessage = [], isLoading = False, gitStatus = None, statusMessage = [],
           calls = [], pending = []\<rparr>"

definition three_files :: "FileChange list" where
  "three_files = [\<lparr>filename = [0x78], isDeleted = False\<rparr>, \<lparr>filename = [0x79], isDeleted = True\<rparr>,
              \<lparr>filename = [0x7A], isDeleted = False\<rparr>]"

definition with_unstaged :: controller where
  "with_unstaged = idle\<lparr>gitStatus := Some \<lparr>staged = [], unstaged = three_files\<rparr>\<rparr>"

definition with_staged :: controller where
  "with_staged = idle\<lparr>gitStatus := Some \<lparr>staged = three_files, unstaged = []\<rparr>\<rparr>"


definition nothing_staged :: controller where
  "nothing_staged =
     idle\<lparr>commitMessage := [0x66, 0x69, 0x78], gitStatus := Some \<lparr>staged = [], unstaged = []\<rparr>\<rparr>"

section \<open>Properties of the classifier\<close>

lemma forEach_callback_matrix:
  "fr_statusMatrix (forEach_callback row fr) = fr_statusMatrix fr"
  by (cases row) (simp add: push_staged_def push_unstaged_def Let_def)

lemma forEach_callback_table:
  "fr_gitStatus (forEach_callback row fr) =
     \<lparr>staged = staged (fr_gitStatus fr) @ table_staged row,
      unstaged = unstaged (fr_gitStatus fr) @ table_unstaged row\<rparr>"
proof -
  obtain name head workTree stage where row: "row = (name, head, workTree, stage)"
    by (cases row) auto
  show ?thesis
    unfolding row
    by (cases head; cases workTree; cases stage)
       (simp_all add: push_staged_def push_unstaged_def Let_def)
qed

lemma forEach_from_table:
  "\<lbrakk>fr_statusMatrix fr = m; len = length m\<rbrakk> \<Longrightarrow>
   forEach_from i len fr =
     \<lparr>fr_statusMatrix = m,
      fr_gitStatus =
        \<lparr>staged = staged (fr_gitStatus fr) @ concat (map table_staged (drop i m)),
         unstaged = unstaged (fr_gitStatus fr) @ concat (map table_unstaged (drop i m))\<rparr>\<rparr>"
proof (induction i len fr rule: forEach_from.induct)
  case (1 i len fr)
  show ?case
  proof (cases "i < len")
    case False
    have "forEach_from i len fr = fr"
      using False by (subst forEach_from.simps) simp
    with False "1.prems" show ?thesis
      by simp
  next
    case True
    let ?fr1 = "forEach_callback (m ! i) fr"
    have step: "forEach_from i len fr = forEach_from (Suc i) len ?fr1"
      using True "1.prems" by (subst forEach_from.simps) simp
    have m1: "fr_statusMatrix ?fr1 = m"
      using "1.prems" by (simp add: forEach_callback_matrix)
    have ih: "forEach_from (Suc i) len ?fr1 =
        \<lparr>fr_statusMatrix = m,
         fr_gitStatus =
           \<lparr>staged = staged (fr_gitStatus ?fr1) @ concat (map table_staged (drop (Suc i) m)),
            unstaged = unstaged (fr_gitStatus ?fr1) @ concat (map table_unstaged (drop (Suc i) m))\<rparr>\<rparr>"
      using "1.IH" [OF True] True "1.prems" m1 by simp
    have dr: "drop i m = m ! i # drop (Suc i) m"
      using True "1.prems" by (simp add: Cons_nth_drop_Suc)
    show ?thesis
      by (simp add: step ih dr forEach_callback_table)
  qed
qed

lemma classify_frame_table:
  "classify_frame m =
     \<lparr>fr_statusMatrix = m,
      fr_gitStatus = \<lparr>staged = concat (map table_staged m),
                      unstaged = concat (map table_unstaged m)\<rparr>\<rparr>"
  unfolding classify_frame_def by (simp add: forEach_from_table [where m = m])

lemma classify_table:
  "classify m = \<lparr>staged = concat (map table_staged m), unstaged = concat (map table_unstaged m)\<rparr>"
  by (simp add: classify_def classify_frame_table)

lemma subseq_table_staged:
  "subseq (map filename (concat (map table_staged m))) (map fst m)"
proof (induction m)
  case Nil
  show ?case by simp
next
  case (Cons row m)
  obtain name head workTree stage where row: "row = (name, head, workTree, stage)"
    by (cases row) auto
  from Cons show ?case
    unfolding row by (auto split: option.splits bool.splits)
qed

lemma subseq_table_unstaged:
  "subseq (map filename (concat (map table_unstaged m))) (map fst m)"
proof (induction m)
  case Nil
  show ?case by simp
next
  case (Cons row m)
  obtain name head workTree stage where row: "row = (name, head, workTree, stage)"
    by (cases row) auto
  from Cons show ?case
    unfolding row by (auto split: option.splits bool.splits)
qed

section \<open>Properties of the handlers\<close>

lemmas handler_defs =
  then_do_def try_catch_def try_catch_finally_def setIsLoading_def setStatusMessage_def
  setCommitMessage_def setGitStatus_def await_call_def fetchGitStatus_unawaited_def Let_def

lemma for_await_all_resolve:
  "(\<forall>j<length fs. answer (calls s @ calls_for cap (take (Suc j) fs)) = Inr ()) \<Longrightarrow>
   for_await answer cap fs s = (Inr (), s\<lparr>calls := calls s @ calls_for cap fs\<rparr>)"
proof (induction fs arbitrary: s)
  case Nil
  show ?case by (simp add: calls_for_def)
next
  case (Cons f fs)
  let ?s1 = "s\<lparr>calls := calls s @ [Call cap [Str (filename f)]]\<rparr>"
  have first: "answer (calls s @ [Call cap [Str (filename f)]]) = Inr ()"
    using Cons.prems [rule_format, of 0] by (simp add: calls_for_def)
  have rest: "\<forall>j<length fs. answer (calls ?s1 @ calls_for cap (take (Suc j) fs)) = Inr ()"
  proof (intro allI impI)
    fix j assume "j < length fs"
    then show "answer (calls ?s1 @ calls_for cap (take (Suc j) fs)) = Inr ()"
      using Cons.prems [rule_format, of "Suc j"] by (simp add: calls_for_def)
  qed
  show ?case
    using Cons.IH [OF rest] first by (simp add: handler_defs calls_for_def)
qed

lemma for_await_first_reject:
  "\<lbrakk>k < length fs;
    \<forall>j<k. answer (calls s @ calls_for cap (take (Suc j) fs)) = Inr ();
    answer (calls s @ calls_for cap (take (Suc k) fs)) = Inl e\<rbrakk> \<Longrightarrow>
   for_await answer cap fs s =
     (Inl e, s\<lparr>calls := calls s @ calls_for cap (take (Suc k) fs)\<rparr>)"
proof (induction fs arbitrary: s k)
  case Nil
  then show ?case by simp
next
  case (Cons f fs)
  let ?s1 = "s\<lparr>calls := calls s @ [Call cap [Str (filename f)]]\<rparr>"
  show ?case
  proof (cases k)
    case 0
    with Cons.prems show ?thesis by (simp add: handler_defs calls_for_def)
  next
    case (Suc k')
    have first: "answer (calls s @ [Call cap [Str (filename f)]]) = Inr ()"
      using Cons.prems(2) [rule_format, of 0] Suc by (simp add: calls_for_def)
    have len: "k' < length fs" using Cons.prems(1) Suc by simp
    have rest: "\<forall>j<k'. answer (calls ?s1 @ calls_for cap (take (Suc j) fs)) = Inr ()"
    proof (intro allI impI)
      fix j assume "j < k'"
      then show "answer (calls ?s1 @ calls_for cap (take (Suc j) fs)) = Inr ()"
        using Cons.prems(2) [rule_format, of "Suc j"] Suc by (simp add: calls_for_def)
    qed
    have fail: "answer (calls ?s1 @ calls_for cap (take (Suc k') fs)) = Inl e"
      using Cons.prems(3) Suc by (simp add: calls_for_def)
    show ?thesis
      using Cons.IH [OF len rest fail] first Suc by (simp add: handler_defs calls_for_def)
  qed
qed

lemma for_await_frame:
  "\<exists>cs. snd (for_await answer cap fs s) = s\<lparr>calls := cs\<rparr>"
proof (induction fs arbitrary: s)
  case Nil
  have "s = s\<lparr>calls := calls s\<rparr>" by simp
  then show ?case by (metis for_await.simps(1) snd_conv)
next
  case (Cons f fs)
  let ?s1 = "s\<lparr>calls := calls s @ [Call cap [Str (filename f)]]\<rparr>"
  show ?case
  proof (cases "answer (calls ?s1)")
    case (Inl e)
    then show ?thesis by (auto simp: handler_defs)
  next
    case (Inr u)
    obtain cs where "snd (for_await answer cap fs ?s1) = ?s1\<lparr>calls := cs\<rparr>"
      using Cons.IH [of ?s1] by blast
    with Inr show ?thesis by (auto simp: handler_defs)
  qed
qed

lemma fetchGitStatus_resume_state:
  "fetchGitStatus_resume answer s =
     (Inr (), case answer of
                Inl e \<Rightarrow> s\<lparr>statusMessage := msg_status_failed\<rparr>
              | Inr m \<Rightarrow> s\<lparr>gitStatus := Some (classify m)\<rparr>)"
  by (simp add: fetchGitStatus_resume_def handler_defs split: sum.splits)



lemma handleCommit_state:
  "handleCommit api s =
     (if commitMessage s = [] then (Inr (), s)
      else
        (Inr (),
         case git_commit api (calls s @ [Call Git_commit [Str (commitMessage s)]]) of
           Inl e \<Rightarrow>
             s\<lparr>isLoading := False, statusMessage := msg_commit_failed,
               calls := calls s @ [Call Git_commit [Str (commitMessage s)]]\<rparr>
         | Inr sha \<Rightarrow>
             s\<lparr>commitMessage := [], isLoading := False,
               statusMessage := msg_committed @ take 7 sha,
               calls := calls s @ [Call Git_commit [Str (commitMessage s)], Call Git_status []],
               pending := pending s @
                 [git_status api
                    (calls s @ [Call Git_commit [Str (commitMessage s)], Call Git_status []])]\<rparr>))"
  by (simp add: handleCommit_def handler_defs split: sum.splits)

lemma handlePull_state:
  "handlePull api s =
     (Inr (),
      case git_pull api (calls s @ [Call Git_pull []]) of
        Inl e \<Rightarrow>
          s\<lparr>isLoading := False, statusMessage := msg_pull_failed,
            calls := calls s @ [Call Git_pull []]\<rparr>
      | Inr u \<Rightarrow>
          s\<lparr>isLoading := False, statusMessage := msg_pulled,
            calls := calls s @ [Call Git_pull [], Call Git_status []],
            pending := pending s @
              [git_status api (calls s @ [Call Git_pull [], Call Git_status []])]\<rparr>)"
  by (simp add: handlePull_def handler_defs split: sum.splits)



text \<open>The body shared by stage-all and unstage-all, once the guard has let it through.\<close>

lemma sweep_resolved:
  assumes "for_await answer cap fs (s\<lparr>isLoading := True\<rparr>) = (Inr (), s1)"
  shows "try_catch_finally
           (then_do (setIsLoading True)
              (\<lambda>_. then_do (for_await answer cap fs)
                 (\<lambda>_. then_do (setStatusMessage done) (\<lambda>_. fetchGitStatus_unawaited api))))
           (\<lambda>e. setStatusMessage failed) (setIsLoading False) s =
         (Inr (), s1\<lparr>isLoading := False, statusMessage := done,
                    calls := calls s1 @ [Call Git_status []],
                    pending := pending s1 @ [git_status api (calls s1 @ [Call Git_status []])]\<rparr>)"
  using assms by (simp add: handler_defs)

lemma sweep_rejected:
  assumes "for_await answer cap fs (s\<lparr>isLoading := True\<rparr>) = (Inl e, s1)"
  shows "try_catch_finally
           (then_do (setIsLoading True)
              (\<lambda>_. then_do (for_await answer cap fs)
                 (\<lambda>_. then_do (setStatusMessage done) (\<lambda>_. fetchGitStatus_unawaited api))))
           (\<lambda>e. setStatusMessage failed) (setIsLoading False) s =
         (Inr (), s1\<lparr>isLoading := False, statusMessage := failed\<rparr>)"
  using assms by (simp add: handler_defs)


lemma handlePush_state:
  "handlePush api s =
     (Inr (), s\<lparr>isLoading := False,
               statusMessage := (case git_push api (calls s @ [Call Git_push []]) of
                                   Inl e \<Rightarrow> msg_push_failed | Inr u \<Rightarrow> msg_pushed),
               calls := calls s @ [Call Git_push []]\<rparr>)"
  by (simp add: handlePush_def handler_defs split: sum.splits)

lemma msg_status_failed_nonempty: "msg_status_failed \<noteq> []"
  by (simp add: msg_status_failed_def)

lemma handleCommit_empty_message:
  "commitMessage s = [] \<Longrightarrow> handleCommit api s = (Inr (), s)"
  by (simp add: handleCommit_def)

lemmas example_defs =
  idle_def with_unstaged_def with_staged_def nothing_staged_def three_files_def
  api_resolving_def api_rejecting_def api_second_rejects_def sha_example_def calls_for_def

lemma getFileName_examples:
  "getFileName [0x61, 0x2F, 0x62] = [0x62] \<and> getFileName [0x61, 0x2F] = [0x61, 0x2F]
   \<and> getFileName [] = []"
  by (simp add: getFileName_def)

section \<open>The claims\<close>

text \<open>
  C1. For every status matrix, the staged list is the concatenation, in the order of the
  matrix, of what the case table gives for each row as staged, and the unstaged list the
  same for unstaged: a row of one of the six combinations contributes the entries of its
  table row (both lists for MODIFIED with MODIFIED_AGAIN), a row of any other combination
  contributes nothing, and the file names of either list form a subsequence of the file
  names of the matrix, so the relative order of the input is kept.
\<close>

theorem classify_case_table:
  "classify m =
     \<lparr>staged = concat (map table_staged m), unstaged = concat (map table_unstaged m)\<rparr>
   \<and> subseq (map filename (staged (classify m))) (map fst m)
   \<and> subseq (map filename (unstaged (classify m))) (map fst m)"
  by (simp add: classify_table subseq_table_staged subseq_table_unstaged)

text \<open>
  C2. The classification is a function of the matrix alone and the matrix is only read.
  The loop leaves the matrix cell of its frame as it found it. Whatever the state of the
  controller when the answer to a status fetch arrives (an earlier classification, messages,
  calls made so far), the classification stored is that of the matrix, so two runs on the
  same matrix from any two states store the same lists, and a second run on the same matrix
  changes nothing.
\<close>

theorem classification_pure:
  "fr_statusMatrix (classify_frame m) = m
   \<and> gitStatus (snd (fetchGitStatus_resume (Inr m) s1)) = Some (classify m)
   \<and> gitStatus (snd (fetchGitStatus_resume (Inr m) s1)) =
       gitStatus (snd (fetchGitStatus_resume (Inr m) s2))
   \<and> fetchGitStatus_resume (Inr m) (snd (fetchGitStatus_resume (Inr m) s1)) =
       fetchGitStatus_resume (Inr m) s1"
  by (simp add: classify_frame_table fetchGitStatus_resume_state)

text \<open>
  C3, as the claim states it, fails: with three unstaged entries and a capability that
  rejects the first stage call, \<open>handleStageAll\<close> issues that one call and none for
  the two other entries.
\<close>

theorem stageAll_stops_counterexample:
  "gitStatus with_unstaged = Some \<lparr>staged = [], unstaged = three_files\<rparr>
   \<and> length three_files = 3
   \<and> calls (snd (handleStageAll api_rejecting with_unstaged)) = [Call Git_add [Str [0x78]]]
   \<and> Call Git_add [Str [0x79]] \<notin> set (calls (snd (handleStageAll api_rejecting with_unstaged)))
   \<and> calls (snd (handleStageAll api_rejecting with_unstaged)) \<noteq>
       calls_for Git_add three_files @ [Call Git_status []]"
  by (simp add: with_unstaged_def idle_def three_files_def api_rejecting_def handleStageAll_def
        handler_defs calls_for_def)

text \<open>
  C3, as amended. If no classification exists or the unstaged list is empty,
  \<open>handleStageAll\<close> returns the state as it is, with no call. Otherwise the stage
  calls go out one per entry in list order, each answered before the next is issued, and
  stop after the first that is rejected: when all of them resolve, the calls issued are
  exactly one stage call per entry followed by exactly one status call; when the call for
  entry \<open>k\<close> is the first rejected, they are the stage calls for the entries up to
  \<open>k\<close> and nothing else.
\<close>

theorem stageAll_calls:
  "(gitStatus s = None \<longrightarrow> handleStageAll api s = (Inr (), s))
   \<and> (gitStatus s = Some g \<and> unstaged g = [] \<longrightarrow> handleStageAll api s = (Inr (), s))
   \<and> (gitStatus s = Some g \<and> unstaged g \<noteq> []
        \<and> (\<forall>j<length (unstaged g).
              git_add api (calls s @ calls_for Git_add (take (Suc j) (unstaged g))) = Inr ())
       \<longrightarrow> calls (snd (handleStageAll api s)) =
             calls s @ calls_for Git_add (unstaged g) @ [Call Git_status []])
   \<and> (gitStatus s = Some g \<and> k < length (unstaged g)
        \<and> (\<forall>j<k. git_add api (calls s @ calls_for Git_add (take (Suc j) (unstaged g))) = Inr ())
        \<and> git_add api (calls s @ calls_for Git_add (take (Suc k) (unstaged g))) = Inl e
       \<longrightarrow> calls (snd (handleStageAll api s)) =
             calls s @ calls_for Git_add (take (Suc k) (unstaged g)))"
proof (intro conjI impI)
  assume "gitStatus s = None"
  then show "handleStageAll api s = (Inr (), s)" by (simp add: handleStageAll_def)
next
  assume "gitStatus s = Some g \<and> unstaged g = []"
  then show "handleStageAll api s = (Inr (), s)" by (simp add: handleStageAll_def)
next
  assume a: "gitStatus s = Some g \<and> unstaged g \<noteq> []
     \<and> (\<forall>j<length (unstaged g).
           git_add api (calls s @ calls_for Git_add (take (Suc j) (unstaged g))) = Inr ())"
  have "for_await (git_add api) Git_add (unstaged g) (s\<lparr>isLoading := True\<rparr>) =
          (Inr (), s\<lparr>isLoading := True, calls := calls s @ calls_for Git_add (unstaged g)\<rparr>)"
    using a for_await_all_resolve [of "unstaged g" "git_add api" "s\<lparr>isLoading := True\<rparr>" Git_add]
    by simp
  from sweep_resolved [OF this] a
  show "calls (snd (handleStageAll api s)) =
          calls s @ calls_for Git_add (unstaged g) @ [Call Git_status []]"
    by (simp add: handleStageAll_def)
next
  assume a: "gitStatus s = Some g \<and> k < length (unstaged g)
     \<and> (\<forall>j<k. git_add api (calls s @ calls_for Git_add (take (Suc j) (unstaged g))) = Inr ())
     \<and> git_add api (calls s @ calls_for Git_add (take (Suc k) (unstaged g))) = Inl e"
  then have ne: "unstaged g \<noteq> []" by auto
  have "for_await (git_add api) Git_add (unstaged g) (s\<lparr>isLoading := True\<rparr>) =
          (Inl e, s\<lparr>isLoading := True,
                    calls := calls s @ calls_for Git_add (take (Suc k) (unstaged g))\<rparr>)"
    using a for_await_first_reject
            [of k "unstaged g" "git_add api" "s\<lparr>isLoading := True\<rparr>" Git_add e]
    by simp
  from sweep_rejected [OF this] a ne
  show "calls (snd (handleStageAll api s)) =
          calls s @ calls_for Git_add (take (Suc k) (unstaged g))"
    by (simp add: handleStageAll_def)
qed

text \<open>
  The amended C3 at concrete inputs: nothing fetched yet, nothing unstaged, three entries
  with every call resolving, and three entries with the second call rejected.
\<close>

theorem stageAll_calls_witness:
  "handleStageAll api_resolving idle = (Inr (), idle)
   \<and> handleStageAll api_resolving nothing_staged = (Inr (), nothing_staged)
   \<and> calls (snd (handleStageAll api_resolving with_unstaged)) =
       [Call Git_add [Str [0x78]], Call Git_add [Str [0x79]], Call Git_add [Str [0x7A]],
        Call Git_status []]
   \<and> calls (snd (handleStageAll api_second_rejects with_unstaged)) =
       [Call Git_add [Str [0x78]], Call Git_add [Str [0x79]]]"
proof -
  have a: "handleStageAll api_resolving idle = (Inr (), idle)"
    using stageAll_calls [where s = idle and api = api_resolving] by (simp add: idle_def)
  have b: "handleStageAll api_resolving nothing_staged = (Inr (), nothing_staged)"
    using stageAll_calls [where s = nothing_staged and api = api_resolving
                            and g = "\<lparr>staged = [], unstaged = []\<rparr>"]
    by (simp add: nothing_staged_def idle_def)
  have c: "calls (snd (handleStageAll api_resolving with_unstaged)) =
       [Call Git_add [Str [0x78]], Call Git_add [Str [0x79]], Call Git_add [Str [0x7A]],
        Call Git_status []]"
    using stageAll_calls [where s = with_unstaged and api = api_resolving
                            and g = "\<lparr>staged = [], unstaged = three_files\<rparr>"]
    by (simp add: example_defs)
  have d: "calls (snd (handleStageAll api_second_rejects with_unstaged)) =
       [Call Git_add [Str [0x78]], Call Git_add [Str [0x79]]]"
    using stageAll_calls [where s = with_unstaged and api = api_second_rejects
                            and g = "\<lparr>staged = [], unstaged = three_files\<rparr>"
                            and k = 1 and e = Rejected]
    by (simp add: example_defs)
  from a b c d show ?thesis by simp
qed




text \<open>
  C5. \<open>fetchGitStatus\<close> never throws. When the status call is rejected it sets the
  (non-empty) failure message and changes nothing else, so the classification stays the one
  from before the call; when the call resolves with a matrix, the classification is
  replaced by that of the matrix and the message is kept. The same holds for a fetch that a
  handler started without awaiting it, when its answer is delivered.
\<close>

theorem refresh_failure_kept:
  "fst (fetchGitStatus api s) = Inr ()
   \<and> (git_status api (calls s @ [Call Git_status []]) = Inl e \<longrightarrow>
        snd (fetchGitStatus api s) =
          s\<lparr>statusMessage := msg_status_failed, calls := calls s @ [Call Git_status []]\<rparr>
        \<and> gitStatus (snd (fetchGitStatus api s)) = gitStatus s
        \<and> statusMessage (snd (fetchGitStatus api s)) \<noteq> [])
   \<and> (git_status api (calls s @ [Call Git_status []]) = Inr m \<longrightarrow>
        snd (fetchGitStatus api s) =
          s\<lparr>gitStatus := Some (classify m), calls := calls s @ [Call Git_status []]\<rparr>)
   \<and> fetchGitStatus_resume (Inl e) s = (Inr (), s\<lparr>statusMessage := msg_status_failed\<rparr>)
   \<and> fetchGitStatus_resume (Inr m) s = (Inr (), s\<lparr>gitStatus := Some (classify m)\<rparr>)"
  by (simp add: fetchGitStatus_def handler_defs fetchGitStatus_resume_state
        msg_status_failed_nonempty split: sum.splits)

text \<open>
  C5 at concrete inputs: a rejected fetch and a resolved one, from a state that holds a
  classification.
\<close>

theorem refresh_failure_kept_witness:
  "snd (fetchGitStatus api_rejecting with_staged) =
     with_staged\<lparr>statusMessage := msg_status_failed, calls := [Call Git_status []]\<rparr>
   \<and> snd (fetchGitStatus api_resolving with_staged) =
     with_staged\<lparr>gitStatus := Some \<lparr>staged = [\<lparr>filename = [0x63], isDeleted = False\<rparr>],
                                     unstaged = [\<lparr>filename = [0x63], isDeleted = False\<rparr>]\<rparr>,
                  calls := [Call Git_status []]\<rparr>"
proof -
  have a: "snd (fetchGitStatus api_rejecting with_staged) =
     with_staged\<lparr>statusMessage := msg_status_failed, calls := [Call Git_status []]\<rparr>"
    using refresh_failure_kept [where s = with_staged and api = api_rejecting and e = Rejected]
    by (simp add: api_rejecting_def with_staged_def idle_def)
  have b: "snd (fetchGitStatus api_resolving with_staged) =
     with_staged\<lparr>gitStatus := Some \<lparr>staged = [\<lparr>filename = [0x63], isDeleted = False\<rparr>],
                                     unstaged = [\<lparr>filename = [0x63], isDeleted = False\<rparr>]\<rparr>,
                  calls := [Call Git_status []]\<rparr>"
    using refresh_failure_kept
            [where s = with_staged and api = api_resolving
               and m = "[([0x63], HeadStatus_PRESENT, WorkdirStatus_MODIFIED,
                          StageStatus_MODIFIED_AGAIN)]"]
    by (simp add: api_resolving_def with_staged_def idle_def classify_table)
  from a b show ?thesis by simp
qed

text \<open>
  C6, as the claim states it, fails: a commit with the message \<open>fix\<close> issues the
  call \<open>commit("fix")\<close>, whose only argument is the message; no author identity is
  among its arguments.
\<close>

theorem commit_author_counterexample:
  "calls (snd (handleCommit api_resolving nothing_staged)) =
     [Call Git_commit [Str [0x66, 0x69, 0x78]], Call Git_status []]
   \<and> \<not> carries_author (Call Git_commit [Str [0x66, 0x69, 0x78]])"
  by (simp add: handleCommit_state nothing_staged_def idle_def api_resolving_def)

text \<open>
  C6, as amended. \<open>handleCommit\<close> with an empty message issues no call. With a
  non-empty message it issues exactly one commit call, whose only argument is the message,
  followed by one status call when the commit resolves. The handler passes no author
  identity and never asks for the settings: no call to the settings capability is among
  the calls it issues.
\<close>

theorem commit_passes_message_only:
  "calls (snd (handleCommit api s)) =
     calls s @
       (if commitMessage s = [] then []
        else Call Git_commit [Str (commitMessage s)] #
             (case git_commit api (calls s @ [Call Git_commit [Str (commitMessage s)]]) of
                Inl e \<Rightarrow> [] | Inr sha \<Rightarrow> [Call Git_status []]))
   \<and> \<not> carries_author (Call Git_commit [Str (commitMessage s)])"
  by (simp add: handleCommit_state split: sum.splits)

text \<open>
  C7. When the message is non-empty and the commit call resolves with a hash, the handler
  sets the status message to the fixed text followed by exactly the first seven code units
  of the hash, empties the message input, issues one status call (the refresh, whose answer
  is pending when the handler returns), and clears the loading flag; the classification is
  not touched by the handler itself.
\<close>

theorem commit_success:
  "commitMessage s \<noteq> [] \<and>
   git_commit api (calls s @ [Call Git_commit [Str (commitMessage s)]]) = Inr sha \<longrightarrow>
   handleCommit api s =
     (Inr (),
      s\<lparr>commitMessage := [], isLoading := False,
        statusMessage := msg_committed @ take 7 sha,
        calls := calls s @ [Call Git_commit [Str (commitMessage s)], Call Git_status []],
        pending := pending s @
          [git_status api
             (calls s @ [Call Git_commit [Str (commitMessage s)], Call Git_status []])]\<rparr>)"
  by (simp add: handleCommit_state)

text \<open>
  C7 at a concrete input: a hash of ten characters, of which the message shows seven.
\<close>

theorem commit_success_witness:
  "handleCommit api_resolving nothing_staged =
     (Inr (),
      nothing_staged
        \<lparr>commitMessage := [], isLoading := False,
         statusMessage := msg_committed @ [0x61, 0x31, 0x62, 0x32, 0x63, 0x33, 0x64],
         calls := [Call Git_commit [Str [0x66, 0x69, 0x78]], Call Git_status []],
         pending := [Inr [([0x63], HeadStatus_PRESENT, WorkdirStatus_MODIFIED,
                           StageStatus_MODIFIED_AGAIN)]]\<rparr>)"
  using commit_success [where s = nothing_staged and api = api_resolving and sha = sha_example]
  by (simp add: nothing_staged_def idle_def api_resolving_def sha_example_def)

text \<open>
  C8. The handler checks the message only. With the message \<open>fix\<close> in the input and
  an empty staged list, \<open>handleCommit\<close> issues the commit call and a status call,
  empties the input and reports a commit.
\<close>

theorem commit_with_nothing_staged:
  "gitStatus nothing_staged = Some \<lparr>staged = [], unstaged = []\<rparr>
   \<and> commitMessage nothing_staged = [0x66, 0x69, 0x78]
   \<and> calls (snd (handleCommit api_resolving nothing_staged)) =
       [Call Git_commit [Str [0x66, 0x69, 0x78]], Call Git_status []]
   \<and> commitMessage (snd (handleCommit api_resolving nothing_staged)) = []
   \<and> statusMessage (snd (handleCommit api_resolving nothing_staged)) =
       msg_committed @ [0x61, 0x31, 0x62, 0x32, 0x63, 0x33, 0x64]"
  by (simp add: handleCommit_state nothing_staged_def idle_def api_resolving_def sha_example_def)

text \<open>
  C9. \<open>handlePush\<close> issues the push call only, sets the loading flag and the status
  message (success or failure text) and nothing else: no status call, no pending refresh,
  classification and message input as before. \<open>handlePull\<close> does the same with the
  pull call, and when that call resolves it also issues one status call, the refresh; when
  it is rejected it issues none.
\<close>

theorem push_pull_refresh:
  "handlePush api s =
     (Inr (),
      s\<lparr>isLoading := False,
        statusMessage := (case git_push api (calls s @ [Call Git_push []]) of
                            Inl e \<Rightarrow> msg_push_failed | Inr u \<Rightarrow> msg_pushed),
        calls := calls s @ [Call Git_push []]\<rparr>)
   \<and> (git_pull api (calls s @ [Call Git_pull []]) = Inr () \<longrightarrow>
        handlePull api s =
          (Inr (),
           s\<lparr>isLoading := False, statusMessage := msg_pulled,
             calls := calls s @ [Call Git_pull [], Call Git_status []],
             pending := pending s @
               [git_status api (calls s @ [Call Git_pull [], Call Git_status []])]\<rparr>))
   \<and> (git_pull api (calls s @ [Call Git_pull []]) = Inl e \<longrightarrow>
        handlePull api s =
          (Inr (),
           s\<lparr>isLoading := False, statusMessage := msg_pull_failed,
             calls := calls s @ [Call Git_pull []]\<rparr>))"
  by (simp add: handlePush_state handlePull_state)

text \<open>
  C9 at concrete inputs: a pull that resolves and a pull that is rejected.
\<close>

theorem push_pull_refresh_witness:
  "handlePull api_resolving with_staged =
     (Inr (),
      with_staged
        \<lparr>isLoading := False, statusMessage := msg_pulled,
         calls := [Call Git_pull [], Call Git_status []],
         pending := [Inr [([0x63], HeadStatus_PRESENT, WorkdirStatus_MODIFIED,
                           StageStatus_MODIFIED_AGAIN)]]\<rparr>)
   \<and> handlePull api_rejecting with_staged =
     (Inr (),
      with_staged\<lparr>isLoading := False, statusMessage := msg_pull_failed,
                  calls := [Call Git_pull []]\<rparr>)"
proof -
  have a: "handlePull api_resolving with_staged =
     (Inr (),
      with_staged
        \<lparr>isLoading := False, statusMessage := msg_pulled,
         calls := [Call Git_pull [], Call Git_status []],
         pending := [Inr [([0x63], HeadStatus_PRESENT, WorkdirStatus_MODIFIED,
                           StageStatus_MODIFIED_AGAIN)]]\<rparr>)"
    using push_pull_refresh [where s = with_staged and api = api_resolving]
    by (simp add: with_staged_def idle_def api_resolving_def)
  have b: "handlePull api_rejecting with_staged =
     (Inr (),
      with_staged\<lparr>isLoading := False, statusMessage := msg_pull_failed,
                  calls := [Call Git_pull []]\<rparr>)"
    using push_pull_refresh [where s = with_staged and api = api_rejecting and e = Rejected]
    by (simp add: with_staged_def idle_def api_rejecting_def)
  from a b show ?thesis by simp
qed

text \<open>
  C10. If the stage call for entry \<open>k\<close> of the unstaged list is the first to be
  rejected, \<open>handleStageAll\<close> has issued the stage calls for the entries up to
  \<open>k\<close> and no other call: none for a later entry and no status call, and no refresh
  is pending. It sets the failure message, clears the loading flag, and leaves the
  classification and the message input as they were. \<open>handleUnstageAll\<close> does the
  same over the staged list.
\<close>

theorem sweep_aborts_on_first_failure:
  "(gitStatus s = Some g \<and> k < length (unstaged g)
      \<and> (\<forall>j<k. git_add api (calls s @ calls_for Git_add (take (Suc j) (unstaged g))) = Inr ())
      \<and> git_add api (calls s @ calls_for Git_add (take (Suc k) (unstaged g))) = Inl e
     \<longrightarrow> handleStageAll api s =
           (Inr (),
            s\<lparr>isLoading := False, statusMessage := msg_stage_all_failed,
              calls := calls s @ calls_for Git_add (take (Suc k) (unstaged g))\<rparr>))
   \<and> (gitStatus s = Some g \<and> k < length (staged g)
      \<and> (\<forall>j<k. git_unstage api (calls s @ calls_for Git_unstage (take (Suc j) (staged g))) = Inr ())
      \<and> git_unstage api (calls s @ calls_for Git_unstage (take (Suc k) (staged g))) = Inl e
     \<longrightarrow> handleUnstageAll api s =
           (Inr (),
            s\<lparr>isLoading := False, statusMessage := msg_unstage_all_failed,
              calls := calls s @ calls_for Git_unstage (take (Suc k) (staged g))\<rparr>))"
proof (intro conjI impI)
  assume a: "gitStatus s = Some g \<and> k < length (unstaged g)
     \<and> (\<forall>j<k. git_add api (calls s @ calls_for Git_add (take (Suc j) (unstaged g))) = Inr ())
     \<and> git_add api (calls s @ calls_for Git_add (take (Suc k) (unstaged g))) = Inl e"
  then have ne: "unstaged g \<noteq> []" by auto
  have "for_await (git_add api) Git_add (unstaged g) (s\<lparr>isLoading := True\<rparr>) =
          (Inl e, s\<lparr>isLoading := True,
                    calls := calls s @ calls_for Git_add (take (Suc k) (unstaged g))\<rparr>)"
    using a for_await_first_reject
            [of k "unstaged g" "git_add api" "s\<lparr>isLoading := True\<rparr>" Git_add e]
    by simp
  from sweep_rejected [OF this] a ne
  show "handleStageAll api s =
          (Inr (),
           s\<lparr>isLoading := False, statusMessage := msg_stage_all_failed,
             calls := calls s @ calls_for Git_add (take (Suc k) (unstaged g))\<rparr>)"
    by (simp add: handleStageAll_def)
next
  assume a: "gitStatus s = Some g \<and> k < length (staged g)
     \<and> (\<forall>j<k. git_unstage api (calls s @ calls_for Git_unstage (take (Suc j) (staged g))) = Inr ())
     \<and> git_unstage api (calls s @ calls_for Git_unstage (take (Suc k) (staged g))) = Inl e"
  then have ne: "staged g \<noteq> []" by auto
  have "for_await (git_unstage api) Git_unstage (staged g) (s\<lparr>isLoading := True\<rparr>) =
          (Inl e, s\<lparr>isLoading := True,
                    calls := calls s @ calls_for Git_unstage (take (Suc k) (staged g))\<rparr>)"
    using a for_await_first_reject
            [of k "staged g" "git_unstage api" "s\<lparr>isLoading := True\<rparr>" Git_unstage e]
    by simp
  from sweep_rejected [OF this] a ne
  show "handleUnstageAll api s =
          (Inr (),
           s\<lparr>isLoading := False, statusMessage := msg_unstage_all_failed,
             calls := calls s @ calls_for Git_unstage (take (Suc k) (staged g))\<rparr>)"
    by (simp add: handleUnstageAll_def)
qed

text \<open>
  C10 at concrete inputs: three entries, the second call rejected.
\<close>

theorem sweep_aborts_on_first_failure_witness:
  "handleStageAll api_second_rejects with_unstaged =
     (Inr (),
      with_unstaged\<lparr>isLoading := False, statusMessage := msg_stage_all_failed,
                    calls := [Call Git_add [Str [0x78]], Call Git_add [Str [0x79]]]\<rparr>)
   \<and> handleUnstageAll api_second_rejects with_staged =
     (Inr (),
      with_staged\<lparr>isLoading := False, statusMessage := msg_unstage_all_failed,
                  calls := [Call Git_unstage [Str [0x78]], Call Git_unstage [Str [0x79]]]\<rparr>)"
proof -
  have a: "handleStageAll api_second_rejects with_unstaged =
     (Inr (),
      with_unstaged\<lparr>isLoading := False, statusMessage := msg_stage_all_failed,
                    calls := [Call Git_add [Str [0x78]], Call Git_add [Str [0x79]]]\<rparr>)"
    using sweep_aborts_on_first_failure
            [where s = with_unstaged and api = api_second_rejects
               and g = "\<lparr>staged = [], unstaged = three_files\<rparr>" and k = 1 and e = Rejected]
    by (simp add: example_defs)
  have b: "handleUnstageAll api_second_rejects with_staged =
     (Inr (),
      with_staged\<lparr>isLoading := False, statusMessage := msg_unstage_all_failed,
                  calls := [Call Git_unstage [Str [0x78]], Call Git_unstage [Str [0x79]]]\<rparr>)"
    using sweep_aborts_on_first_failure
            [where s = with_staged and api = api_second_rejects
               and g = "\<lparr>staged = three_files, unstaged = []\<rparr>" and k = 1 and e = Rejected]
    by (simp add: example_defs)
  from a b show ?thesis by simp
qed

end
